theory Spec2Isabelle
  imports Main
begin

section \<open>The schema table and the inferred connections (erd\_viz.py, lines 5--35)\<close>

text \<open>
  A cell of the frame that \<open>pd.read_csv\<close> returns (line 8). With the default options a cell
  is a text, or it is missing (an empty cell, and texts such as \<open>NA\<close>, \<open>NULL\<close> and \<open>nan\<close>,
  are read as the float NaN), or, in a column whose cells are all numeric, a number. A
  number is kept by its Python text, which determines it within a column.
\<close>

datatype cell = Str string | Num string | NaN

text \<open>
  The comparison \<open>==\<close> of pandas on cells: a missing cell is equal to nothing, not even
  to itself; \<open>!=\<close> is its negation. A select box without options returns \<open>None\<close>, which is
  equal to no cell either.
\<close>

definition eq_cell :: "cell \<Rightarrow> cell \<Rightarrow> bool" where
  "eq_cell a b \<longleftrightarrow> a = b \<and> a \<noteq> NaN"

fun eq_choice :: "cell \<Rightarrow> cell option \<Rightarrow> bool" where
  "eq_choice a None = False"
| "eq_choice a (Some b) = eq_cell a b"

text \<open>The text of a cell in an f-string (lines 96, 103, 147 and 157).\<close>

fun str_of :: "cell \<Rightarrow> string" where
  "str_of (Str s) = s"
| "str_of (Num s) = s"
| "str_of NaN = ''nan''"

text \<open>One row of the CSV file: the three columns the script requires.\<close>

record schema_row =
  Table :: cell
  Column :: cell
  Data_Type :: cell

text \<open>One inferred connection: the dictionary appended at lines 27--32.\<close>

record connection =
  from_table :: cell
  from_column :: cell
  to_table :: cell
  to_column :: cell

text \<open>Line 19: the rows whose data type is the identifier type.\<close>

definition df_uniqueidentifier :: "schema_row list \<Rightarrow> schema_row list" where
  "df_uniqueidentifier df = filter (\<lambda>r. eq_cell (Data_Type r) (Str ''uniqueidentifier'')) df"

text \<open>
  Line 25: the identifier rows with the same column name and \<open>Table != row['Table']\<close>.
  On a row whose table is missing the second test holds of the row itself.
\<close>

definition matches :: "schema_row list \<Rightarrow> schema_row \<Rightarrow> schema_row list" where
  "matches dfu row =
     filter (\<lambda>m. eq_cell (Column m) (Column row) \<and> \<not> eq_cell (Table m) (Table row)) dfu"

text \<open>Lines 22--32: the two nested loops, appending in iteration order.\<close>

definition connections :: "schema_row list \<Rightarrow> connection list" where
  "connections dfu =
     concat (map (\<lambda>row. map (\<lambda>m. \<lparr>from_table = Table row, from_column = Column row,
                                    to_table = Table m, to_column = Column m\<rparr>)
                             (matches dfu row)) dfu)"

text \<open>
  pandas' \<open>drop_duplicates\<close> and \<open>unique\<close> keep the first occurrence of every value, in
  order of appearance; both take two missing cells for the same value.
\<close>

fun drop_duplicates :: "'a list \<Rightarrow> 'a list" where
  "drop_duplicates [] = []"
| "drop_duplicates (x # xs) = x # drop_duplicates (filter (\<lambda>y. y \<noteq> x) xs)"

definition unique :: "'a list \<Rightarrow> 'a list" where
  "unique xs = drop_duplicates xs"

text \<open>
  Line 35. A frame built from the empty list has no column; the functions below test
  for the empty list where the script reads a column of this frame.
\<close>

definition connections_df :: "schema_row list \<Rightarrow> connection list" where
  "connections_df df = drop_duplicates (connections (df_uniqueidentifier df))"

text \<open>Line 58: the tables that hold the selected column among the identifier rows.\<close>

definition tables_with_column :: "schema_row list \<Rightarrow> cell option \<Rightarrow> cell list" where
  "tables_with_column dfu selected_column =
     unique (map Table (filter (\<lambda>r. eq_choice (Column r) selected_column) dfu))"

section \<open>Narrowing the connections by the sidebar choices (lines 40--111)\<close>

text \<open>
  A select box returns one of its options, or \<open>None\<close> when it has no option; a choice of
  a table or a column is therefore a \<open>cell option\<close>, and the chosen relationship, one of
  the texts of line 96, a \<open>string option\<close>.

  The radio button of line 42 with the choices made in its branch:
  \<open>Table_Name selected_table selected_to_table\<close> and
  \<open>Column_Name selected_column selected_table_1 selected_table_2\<close>.
\<close>

datatype filter_type =
    Filter_None
  | Table_Name "cell option" "cell option"
  | Column_Name "cell option" "cell option" "cell option"

text \<open>
  The failures of the script are uncaught Python exceptions:
  \<^item> \<open>KeyError\<close>: the frame built from an empty list of connections has no column, so
    \<open>connections_df['from_table']\<close> (lines 50 and 65) raises;
  \<^item> \<open>ValueError\<close>: on that frame without columns, reached with the filter \<open>None\<close>, the
    row lookup of lines 101--106 raises within \<open>.loc\<close>;
  \<^item> \<open>IndexError\<close>: on a frame with columns the row lookup finds no row to take with
    \<open>.iloc[0]\<close>;
  \<^item> \<open>TypeError\<close>: \<open>graph.node\<close> is given a name that is not a text (lines 120, 122, 145,
    146 and 156).

  \<open>NoJoinableTable\<close> and \<open>NoMatchingRelationship\<close> are the error names of the
  specification. No statement of the script raises them; they are part of the type so
  that statements about them can be written down.
\<close>

datatype error =
  KeyError | ValueError | IndexError | TypeError | NoJoinableTable | NoMatchingRelationship

text \<open>Lines 50 and 65: the rows that have the table on either side.\<close>

definition by_table :: "cell option \<Rightarrow> connection list \<Rightarrow> connection list" where
  "by_table selected_table cdf =
     filter (\<lambda>r. eq_choice (from_table r) selected_table \<or> eq_choice (to_table r) selected_table)
       cdf"

text \<open>Lines 66 and 84: the options of the second select box.\<close>

definition joinable_tables :: "connection list \<Rightarrow> cell list" where
  "joinable_tables filtered = unique (map to_table filtered)"

text \<open>Lines 44--90: the frame \<open>filtered_connections\<close> that reaches line 94.\<close>

fun filtered_connections :: "connection list \<Rightarrow> filter_type \<Rightarrow> error + connection list" where
  "filtered_connections cdf Filter_None = Inr cdf"
| "filtered_connections cdf (Table_Name selected_table selected_to_table) =
     (if cdf = [] then Inl KeyError
      else Inr (filter (\<lambda>r. eq_choice (to_table r) selected_to_table)
                  (by_table selected_table cdf)))"
| "filtered_connections cdf (Column_Name selected_column selected_table_1 selected_table_2) =
     (if cdf = [] then Inl KeyError
      else Inr (filter (\<lambda>r. eq_choice (to_table r) selected_table_2 \<or>
                             eq_choice (from_table r) selected_table_2)
                  (by_table selected_table_1 cdf)))"

text \<open>Lines 96 and 103: the text shown for a row.\<close>

definition display_key :: "connection \<Rightarrow> string" where
  "display_key r =
     str_of (from_table r) @ '' ('' @ str_of (from_column r) @ '') -> '' @
     str_of (to_table r) @ '' ('' @ str_of (to_column r) @ '')''"

text \<open>
  Lines 101--106: the first row whose text is the chosen one. \<open>has_columns\<close> tells
  whether the frame has columns, that is, whether any connection was inferred.
\<close>

definition selected_row ::
  "bool \<Rightarrow> connection list \<Rightarrow> string option \<Rightarrow> error + connection" where
  "selected_row has_columns filtered selected_relationship =
     (if \<not> has_columns then Inl ValueError
      else case filter (\<lambda>r. Some (display_key r) = selected_relationship) filtered of
             [] \<Rightarrow> Inl IndexError
           | r # _ \<Rightarrow> Inr r)"

text \<open>Lines 40--111 as one function of the table and the choices.\<close>

definition resolve ::
  "schema_row list \<Rightarrow> filter_type \<Rightarrow> string option \<Rightarrow> error + connection" where
  "resolve df ft selected_relationship =
     (case filtered_connections (connections_df df) ft of
        Inl e \<Rightarrow> Inl e
      | Inr filtered \<Rightarrow>
          selected_row (connections_df df \<noteq> []) filtered selected_relationship)"

section \<open>The two graphs (lines 113--160)\<close>

text \<open>
  A \<open>graphviz.Digraph\<close> collects node and edge statements in the order of the calls.
  The model keeps the nodes and the edges in two lists. A node name must be a text:
  \<open>graph.node\<close> raises on a number and on a missing cell.
\<close>

record edge =
  tail :: string
  head :: string
  label :: string

record digraph =
  nodes :: "string list"
  edges :: "edge list"

fun is_str :: "cell \<Rightarrow> bool" where
  "is_str (Str s) = True"
| "is_str (Num s) = False"
| "is_str NaN = False"

text \<open>Lines 116--123.\<close>

definition joinable_tables_graph :: "cell \<Rightarrow> cell list \<Rightarrow> error + digraph" where
  "joinable_tables_graph selected_table joinable =
     (if list_all is_str (selected_table # joinable)
      then Inr \<lparr>nodes = str_of selected_table # map str_of joinable,
                edges = map (\<lambda>t. \<lparr>tail = str_of selected_table, head = str_of t,
                                    label = ''joins''\<rparr>) joinable\<rparr>
      else Inl TypeError)"

text \<open>
  Lines 40--125: the graph of joinable tables is built after the row lookup, and in the
  \<open>Table Name\<close> branch only (line 115), from the list \<open>joinable_tables\<close> of line 84.
\<close>

definition joinable_chart ::
  "schema_row list \<Rightarrow> filter_type \<Rightarrow> string option \<Rightarrow> error + digraph option" where
  "joinable_chart df ft selected_relationship =
     (case resolve df ft selected_relationship of
        Inl e \<Rightarrow> Inl e
      | Inr row \<Rightarrow>
          (case ft of
             Table_Name selected_table selected_to_table \<Rightarrow>
               (case selected_table of
                  None \<Rightarrow> Inl TypeError
                | Some t \<Rightarrow>
                    (case joinable_tables_graph t
                            (joinable_tables (by_table selected_table (connections_df df))) of
                       Inl e \<Rightarrow> Inl e
                     | Inr g \<Rightarrow> Inr (Some g)))
           | _ \<Rightarrow> Inr None))"

text \<open>
  The label of lines 147 and 157. The arrow is U+2192, three bytes in UTF-8.
\<close>

definition arrow_label :: "cell \<Rightarrow> cell \<Rightarrow> string" where
  "arrow_label a b = str_of a @ '' '' @ [CHR 0xE2, CHR 0x86, CHR 0x92] @ '' '' @ str_of b"

text \<open>Line 150.\<close>

definition downstream_connections :: "connection list \<Rightarrow> cell \<Rightarrow> connection list" where
  "downstream_connections cdf to_tab = filter (\<lambda>d. eq_cell (from_table d) to_tab) cdf"

text \<open>
  Lines 141--157. The label of a downstream edge is built from \<open>to_column\<close>, the
  selected row's column (line 111), and the downstream row's \<open>to_column\<close>.
\<close>

definition relationship_graph :: "connection \<Rightarrow> connection list \<Rightarrow> error + digraph" where
  "relationship_graph row cdf =
     (let downstream = downstream_connections cdf (to_table row) in
      if list_all is_str (from_table row # to_table row # map to_table downstream)
      then Inr
        \<lparr>nodes = str_of (from_table row) # str_of (to_table row)
                    # map (\<lambda>d. str_of (to_table d)) downstream,
         edges = \<lparr>tail = str_of (from_table row), head = str_of (to_table row),
                   label = arrow_label (from_column row) (to_column row)\<rparr>
                 # map (\<lambda>d. \<lparr>tail = str_of (to_table row), head = str_of (to_table d),
                                label = arrow_label (to_column row) (to_column d)\<rparr>) downstream\<rparr>
      else Inl TypeError)"

section \<open>Example tables\<close>

definition srow :: "string \<Rightarrow> string \<Rightarrow> string \<Rightarrow> schema_row" where
  "srow t c d = \<lparr>Table = Str t, Column = Str c, Data_Type = Str d\<rparr>"

definition conn :: "cell \<Rightarrow> cell \<Rightarrow> cell \<Rightarrow> cell \<Rightarrow> connection" where
  "conn a b c d = \<lparr>from_table = a, from_column = b, to_table = c, to_column = d\<rparr>"

definition sconn :: "string \<Rightarrow> string \<Rightarrow> string \<Rightarrow> string \<Rightarrow> connection" where
  "sconn a b c d = conn (Str a) (Str b) (Str c) (Str d)"

text \<open>The example of the specification.\<close>

definition example_df :: "schema_row list" where
  "example_df =
     [srow ''Orders'' ''CustomerID'' ''uniqueidentifier'',
      srow ''Customers'' ''CustomerID'' ''uniqueidentifier'',
      srow ''Customers'' ''RegionID'' ''uniqueidentifier'',
      srow ''Regions'' ''RegionID'' ''uniqueidentifier'']"

text \<open>
  Three tables that share one identifier column, with a repeated row and a column of
  another type.
\<close>

definition shared_key_df :: "schema_row list" where
  "shared_key_df =
     [srow ''A'' ''K'' ''uniqueidentifier'', srow ''B'' ''K'' ''uniqueidentifier'',
      srow ''C'' ''K'' ''uniqueidentifier'', srow ''A'' ''K'' ''uniqueidentifier'',
      srow ''D'' ''K'' ''int'']"

text \<open>The example with a table whose identifier column no other table has.\<close>

definition notes_df :: "schema_row list" where
  "notes_df = example_df @ [srow ''Notes'' ''NoteID'' ''uniqueidentifier'']"

text \<open>
  The file with the three lines \<open>NA,K,uniqueidentifier\<close>, \<open>B,K,uniqueidentifier\<close> and
  \<open>C,K,uniqueidentifier\<close>: the table cell of the first row is read as missing.
\<close>

definition missing_table_df :: "schema_row list" where
  "missing_table_df =
     [\<lparr>Table = NaN, Column = Str ''K'', Data_Type = Str ''uniqueidentifier''\<rparr>,
      srow ''B'' ''K'' ''uniqueidentifier'', srow ''C'' ''K'' ''uniqueidentifier'']"

text \<open>The file whose tables are named \<open>1\<close> and \<open>2\<close>: the column is read as numbers.\<close>

definition numeric_table_df :: "schema_row list" where
  "numeric_table_df =
     [\<lparr>Table = Num ''1'', Column = Str ''K'', Data_Type = Str ''uniqueidentifier''\<rparr>,
      \<lparr>Table = Num ''2'', Column = Str ''K'', Data_Type = Str ''uniqueidentifier''\<rparr>]"

text \<open>A file in which no column is shared: no connection is inferred.\<close>

definition lonely_df :: "schema_row list" where
  "lonely_df = [srow ''Notes'' ''NoteID'' ''uniqueidentifier'']"

section \<open>Basic facts\<close>

lemma set_drop_duplicates: "set (drop_duplicates xs) = set xs"
  by (induction xs rule: drop_duplicates.induct) auto

lemma distinct_drop_duplicates: "distinct (drop_duplicates xs)"
  by (induction xs rule: drop_duplicates.induct) (auto simp: set_drop_duplicates)

lemma conn_eq_iff [simp]:
  "conn a b c d = conn a' b' c' d' \<longleftrightarrow> a = a' \<and> b = b' \<and> c = c' \<and> d = d'"
  by (simp add: conn_def)

lemma conn_sel [simp]:
  "from_table (conn a b c d) = a" "from_column (conn a b c d) = b"
  "to_table (conn a b c d) = c" "to_column (conn a b c d) = d"
  by (simp_all add: conn_def)

lemma set_connections:
  "set (connections dfu) =
     {conn (Table x) (Column x) (Table m) (Column m)
      | x m. x \<in> set dfu \<and> m \<in> set dfu \<and> eq_cell (Column m) (Column x) \<and>
             \<not> eq_cell (Table m) (Table x)}"
  unfolding connections_def matches_def conn_def by auto

lemma connections_df_example:
  "connections_df example_df =
     [sconn ''Orders'' ''CustomerID'' ''Customers'' ''CustomerID'',
      sconn ''Customers'' ''CustomerID'' ''Orders'' ''CustomerID'',
      sconn ''Customers'' ''RegionID'' ''Regions'' ''RegionID'',
      sconn ''Regions'' ''RegionID'' ''Customers'' ''RegionID'']"
  by (simp add: connections_df_def example_df_def connections_def df_uniqueidentifier_def
      matches_def conn_def sconn_def srow_def eq_cell_def)

lemma set_connections_df:
  "set (connections_df df) =
     {conn (Table x) (Column x) (Table m) (Column m)
      | x m. x \<in> set (df_uniqueidentifier df) \<and> m \<in> set (df_uniqueidentifier df) \<and>
             eq_cell (Column m) (Column x) \<and> \<not> eq_cell (Table m) (Table x)}"
  by (simp add: connections_df_def set_drop_duplicates set_connections)

lemma eq_cell_sym: "eq_cell a b \<longleftrightarrow> eq_cell b a"
  by (auto simp: eq_cell_def)

lemma in_connections_dfE:
  assumes "r \<in> set (connections_df df)"
  obtains a b c where "r = conn a c b c" "c \<noteq> NaN" "a \<noteq> b \<or> a = NaN"
    "conn b c a c \<in> set (connections_df df)"
proof -
  from assms obtain x m where r: "r = conn (Table x) (Column x) (Table m) (Column m)"
    and x: "x \<in> set (df_uniqueidentifier df)" and m: "m \<in> set (df_uniqueidentifier df)"
    and c: "eq_cell (Column m) (Column x)" and t: "\<not> eq_cell (Table m) (Table x)"
    unfolding set_connections_df by blast
  from c have cc: "Column m = Column x" "Column x \<noteq> NaN"
    by (auto simp: eq_cell_def)
  from c t have "eq_cell (Column x) (Column m)" "\<not> eq_cell (Table x) (Table m)"
    using eq_cell_sym by blast+
  with x m have "conn (Table m) (Column m) (Table x) (Column x) \<in> set (connections_df df)"
    unfolding set_connections_df by blast
  moreover from t have "Table x \<noteq> Table m \<or> Table x = NaN"
    by (auto simp: eq_cell_def)
  ultimately show thesis
    using r cc that [of "Table x" "Column x" "Table m"] by simp
qed

lemma distinct_connections_df: "distinct (connections_df df)"
  by (simp add: connections_df_def distinct_drop_duplicates)

lemma set_tables_with_column:
  "set (tables_with_column dfu c) = Table ` {x \<in> set dfu. eq_choice (Column x) c}"
  by (simp add: tables_with_column_def unique_def set_drop_duplicates)

lemma distinct_tables_with_column: "distinct (tables_with_column dfu c)"
  by (simp add: tables_with_column_def unique_def distinct_drop_duplicates)

lemma set_joinable_tables: "set (joinable_tables filtered) = to_table ` set filtered"
  by (simp add: joinable_tables_def unique_def set_drop_duplicates)

lemma joinable_tables_Nil_iff: "joinable_tables filtered = [] \<longleftrightarrow> filtered = []"
  by (cases filtered) (simp_all add: joinable_tables_def unique_def)

lemma connections_df_shared_key:
  "connections_df shared_key_df =
     [sconn ''A'' ''K'' ''B'' ''K'', sconn ''A'' ''K'' ''C'' ''K'',
      sconn ''B'' ''K'' ''A'' ''K'', sconn ''B'' ''K'' ''C'' ''K'',
      sconn ''C'' ''K'' ''A'' ''K'', sconn ''C'' ''K'' ''B'' ''K'']"
  by (simp add: connections_df_def shared_key_df_def connections_def df_uniqueidentifier_def
      matches_def conn_def sconn_def srow_def eq_cell_def)

lemma connections_df_notes: "connections_df notes_df = connections_df example_df"
  unfolding connections_df_example
  by (simp add: connections_df_def notes_df_def example_df_def connections_def
      df_uniqueidentifier_def matches_def conn_def sconn_def srow_def eq_cell_def)

lemma connections_df_missing_table:
  "connections_df missing_table_df =
     [conn NaN (Str ''K'') NaN (Str ''K''), conn NaN (Str ''K'') (Str ''B'') (Str ''K''),
      conn NaN (Str ''K'') (Str ''C'') (Str ''K''),
      conn (Str ''B'') (Str ''K'') NaN (Str ''K''), sconn ''B'' ''K'' ''C'' ''K'',
      conn (Str ''C'') (Str ''K'') NaN (Str ''K''), sconn ''C'' ''K'' ''B'' ''K'']"
  by (simp add: connections_df_def missing_table_df_def connections_def df_uniqueidentifier_def
      matches_def conn_def sconn_def srow_def eq_cell_def)

lemma connections_df_numeric_table:
  "connections_df numeric_table_df =
     [conn (Num ''1'') (Str ''K'') (Num ''2'') (Str ''K''),
      conn (Num ''2'') (Str ''K'') (Num ''1'') (Str ''K'')]"
  by (simp add: connections_df_def numeric_table_df_def connections_def df_uniqueidentifier_def
      matches_def conn_def eq_cell_def)

lemma connections_df_lonely: "connections_df lonely_df = []"
  by (simp add: connections_df_def lonely_df_def connections_def df_uniqueidentifier_def
      matches_def srow_def eq_cell_def)

lemma set_connections_of_column:
  assumes "NaN \<notin> set (tables_with_column (df_uniqueidentifier df) (Some c))"
  shows "set (filter (\<lambda>r. from_column r = c \<or> to_column r = c) (connections_df df)) =
     {conn a c b c | a b. a \<in> set (tables_with_column (df_uniqueidentifier df) (Some c)) \<and>
        b \<in> set (tables_with_column (df_uniqueidentifier df) (Some c)) \<and> a \<noteq> b}"
  (is "?L = ?R")
proof (intro equalityI subsetI)
  let ?ts = "tables_with_column (df_uniqueidentifier df) (Some c)"
  fix r assume "r \<in> ?L"
  then obtain x m where r: "r = conn (Table x) (Column x) (Table m) (Column m)"
    and x: "x \<in> set (df_uniqueidentifier df)" and m: "m \<in> set (df_uniqueidentifier df)"
    and c: "eq_cell (Column m) (Column x)" and t: "\<not> eq_cell (Table m) (Table x)"
    and rc: "from_column r = c \<or> to_column r = c"
    unfolding set_filter set_connections_df by blast
  from c have cc: "Column m = Column x" "Column x \<noteq> NaN"
    by (auto simp: eq_cell_def)
  with r rc have xc: "Column x = c" "Column m = c" "c \<noteq> NaN"
    by auto
  have in_ts: "Table x \<in> set ?ts" "Table m \<in> set ?ts"
    unfolding set_tables_with_column using x m xc by (auto simp: eq_cell_def)
  with assms have "Table m \<noteq> NaN"
    by metis
  with t have "Table x \<noteq> Table m"
    by (auto simp: eq_cell_def)
  with r xc in_ts show "r \<in> ?R"
    by auto
next
  let ?ts = "tables_with_column (df_uniqueidentifier df) (Some c)"
  fix r assume "r \<in> ?R"
  then obtain a b where r: "r = conn a c b c" and a: "a \<in> set ?ts" and b: "b \<in> set ?ts"
    and ab: "a \<noteq> b"
    by blast
  from a obtain x where x: "x \<in> set (df_uniqueidentifier df)" "eq_cell (Column x) c" "Table x = a"
    unfolding set_tables_with_column by auto
  from b obtain m where m: "m \<in> set (df_uniqueidentifier df)" "eq_cell (Column m) c" "Table m = b"
    unfolding set_tables_with_column by auto
  from x m ab have "eq_cell (Column m) (Column x)" "\<not> eq_cell (Table m) (Table x)"
    by (auto simp: eq_cell_def)
  with x m have "conn (Table x) (Column x) (Table m) (Column m) \<in> set (connections_df df)"
    unfolding set_connections_df by blast
  moreover from x m have "Column x = c" "Column m = c"
    by (auto simp: eq_cell_def)
  ultimately show "r \<in> ?L"
    using x m r by simp
qed

lemma card_ordered_pairs:
  assumes "finite T"
  shows "card {(a, b). a \<in> T \<and> b \<in> T \<and> a \<noteq> b} = card T * (card T - 1)"
proof -
  have "{(a, b). a \<in> T \<and> b \<in> T \<and> a \<noteq> b} = (SIGMA a:T. T - {a})"
    by auto
  moreover have "card (SIGMA a:T. T - {a}) = (\<Sum>a\<in>T. card (T - {a}))"
    using assms by (intro card_SigmaI) auto
  moreover have "(\<Sum>a\<in>T. card (T - {a})) = (\<Sum>a\<in>T. card T - 1)"
    using assms by (intro sum.cong refl) simp
  ultimately show ?thesis by simp
qed

lemma length_connections_of_column:
  assumes "NaN \<notin> set (tables_with_column (df_uniqueidentifier df) (Some c))"
  shows "length (filter (\<lambda>r. from_column r = c \<or> to_column r = c) (connections_df df)) =
     length (tables_with_column (df_uniqueidentifier df) (Some c)) *
       (length (tables_with_column (df_uniqueidentifier df) (Some c)) - 1)"
proof -
  let ?ts = "tables_with_column (df_uniqueidentifier df) (Some c)"
  let ?P = "{(a, b). a \<in> set ?ts \<and> b \<in> set ?ts \<and> a \<noteq> b}"
  let ?rels = "filter (\<lambda>r. from_column r = c \<or> to_column r = c) (connections_df df)"
  have "distinct ?rels"
    by (simp add: distinct_connections_df)
  then have len: "length ?rels = card (set ?rels)"
    by (rule distinct_card [symmetric])
  have "set ?rels = (\<lambda>(a, b). conn a c b c) ` ?P"
    unfolding set_connections_of_column [OF assms] by auto
  moreover have "inj_on (\<lambda>(a, b). conn a c b c) ?P"
    by (auto simp: inj_on_def)
  ultimately have "card (set ?rels) = card ?P"
    by (simp only: card_image)
  also have "\<dots> = card (set ?ts) * (card (set ?ts) - 1)"
    by (rule card_ordered_pairs) simp
  also have "card (set ?ts) = length ?ts"
    by (simp add: distinct_card distinct_tables_with_column)
  finally show ?thesis
    using len by (simp only:)
qed

lemma complete_pairs_without_missing_table:
  assumes "ts = tables_with_column (df_uniqueidentifier df) (Some c)"
    and "rels = filter (\<lambda>r. from_column r = c \<or> to_column r = c) (connections_df df)"
    and "NaN \<notin> set ts"
  shows "distinct ts \<and>
         length rels = length ts * (length ts - 1) \<and> distinct rels \<and>
         set rels = {conn a c b c | a b. a \<in> set ts \<and> b \<in> set ts \<and> a \<noteq> b}"
proof -
  have n: "NaN \<notin> set (tables_with_column (df_uniqueidentifier df) (Some c))"
    using assms(3) unfolding assms(1) .
  have "distinct ts" "distinct rels"
    unfolding assms(1,2) by (simp_all add: distinct_tables_with_column distinct_connections_df)
  moreover have "length rels = length ts * (length ts - 1)"
    unfolding assms(1,2) by (rule length_connections_of_column [OF n])
  moreover have "set rels = {conn a c b c | a b. a \<in> set ts \<and> b \<in> set ts \<and> a \<noteq> b}"
    unfolding assms(1,2) by (rule set_connections_of_column [OF n])
  ultimately show ?thesis
    by blast
qed

lemma complete_pairs_shared_key:
  "tables_with_column (df_uniqueidentifier shared_key_df) (Some (Str ''K''))
     = [Str ''A'', Str ''B'', Str ''C''] \<and>
   length (filter (\<lambda>r. from_column r = Str ''K'' \<or> to_column r = Str ''K'')
             (connections_df shared_key_df)) = 3 * (3 - 1)"
proof -
  have ts: "tables_with_column (df_uniqueidentifier shared_key_df) (Some (Str ''K''))
     = [Str ''A'', Str ''B'', Str ''C'']"
    by (simp add: tables_with_column_def df_uniqueidentifier_def shared_key_df_def unique_def
        srow_def eq_cell_def)
  then have "NaN \<notin> set (tables_with_column (df_uniqueidentifier shared_key_df) (Some (Str ''K'')))"
    by simp
  from complete_pairs_without_missing_table [OF refl refl this] ts show ?thesis
    by simp
qed

lemma self_connection_missing:
  assumes "r \<in> set (connections_df df)" and "from_table r = to_table r"
  shows "from_table r = NaN"
  using assms(1)
proof (rule in_connections_dfE)
  fix a b c
  assume "r = conn a c b c" and "a \<noteq> b \<or> a = NaN"
  with assms(2) show ?thesis by auto
qed

lemma downstream_connections_example:
  "downstream_connections (connections_df example_df) (Str ''Customers'') =
     [sconn ''Customers'' ''CustomerID'' ''Orders'' ''CustomerID'',
      sconn ''Customers'' ''RegionID'' ''Regions'' ''RegionID'']"
  by (simp add: connections_df_example downstream_connections_def sconn_def eq_cell_def)

lemma is_str_str_of_inject: "is_str a \<Longrightarrow> is_str b \<Longrightarrow> str_of a = str_of b \<longleftrightarrow> a = b"
  by (cases a; cases b) simp_all

lemma relationship_graph_example:
  "relationship_graph (sconn ''Orders'' ''CustomerID'' ''Customers'' ''CustomerID'')
       (connections_df example_df)
     = Inr \<lparr>nodes = [''Orders'', ''Customers'', ''Orders'', ''Regions''],
            edges =
              [\<lparr>tail = ''Orders'', head = ''Customers'',
                 label = arrow_label (Str ''CustomerID'') (Str ''CustomerID'')\<rparr>,
               \<lparr>tail = ''Customers'', head = ''Orders'',
                 label = arrow_label (Str ''CustomerID'') (Str ''CustomerID'')\<rparr>,
               \<lparr>tail = ''Customers'', head = ''Regions'',
                 label = arrow_label (Str ''CustomerID'') (Str ''RegionID'')\<rparr>]\<rparr>"
  by (simp add: relationship_graph_def sconn_def downstream_connections_example [unfolded sconn_def])

lemma resolve_cases:
  "resolve df ft sel = Inl KeyError \<or> resolve df ft sel = Inl ValueError \<or>
   resolve df ft sel = Inl IndexError \<or>
   (\<exists>r. resolve df ft sel = Inr r \<and> r \<in> set (connections_df df) \<and> Some (display_key r) = sel)"
proof -
  have row: "selected_row True filtered sel = Inl IndexError \<or>
      (\<exists>r. selected_row True filtered sel = Inr r \<and> r \<in> set filtered \<and> Some (display_key r) = sel)"
    for filtered
  proof (cases "filter (\<lambda>r. Some (display_key r) = sel) filtered")
    case Nil
    then show ?thesis by (simp add: selected_row_def)
  next
    case (Cons r rs)
    then have "r \<in> set (filter (\<lambda>r. Some (display_key r) = sel) filtered)"
      by simp
    then have "r \<in> set filtered \<and> Some (display_key r) = sel"
      by simp
    moreover from Cons have "selected_row True filtered sel = Inr r"
      by (simp add: selected_row_def)
    ultimately show ?thesis
      by blast
  qed
  show ?thesis
  proof (cases "connections_df df = []")
    case True
    then show ?thesis
      by (cases ft) (simp_all add: resolve_def selected_row_def)
  next
    case False
    show ?thesis
    proof (cases ft)
      case Filter_None
      with False row [of "connections_df df"] show ?thesis
        by (auto simp: resolve_def)
    next
      case (Table_Name st sto)
      with False row [of "filter (\<lambda>r. eq_choice (to_table r) sto) (by_table st (connections_df df))"]
      show ?thesis
        by (auto simp: resolve_def by_table_def)
    next
      case (Column_Name sc st1 st2)
      with False row [of "filter (\<lambda>r. eq_choice (to_table r) st2 \<or> eq_choice (from_table r) st2)
          (by_table st1 (connections_df df))"]
      show ?thesis
        by (auto simp: resolve_def by_table_def)
    qed
  qed
qed

lemma resolve_Table_Name_by_table:
  assumes "resolve df (Table_Name st sto) sel = Inr row"
  shows "row \<in> set (by_table st (connections_df df))"
proof -
  let ?f = "filter (\<lambda>r. eq_choice (to_table r) sto) (by_table st (connections_df df))"
  from assms have ne: "connections_df df \<noteq> []"
    by (auto simp: resolve_def split: if_splits)
  with assms have "selected_row True ?f sel = Inr row"
    by (simp add: resolve_def)
  then obtain rs where "filter (\<lambda>r. Some (display_key r) = sel) ?f = row # rs"
    by (cases "filter (\<lambda>r. Some (display_key r) = sel) ?f") (simp_all add: selected_row_def)
  then have "row \<in> set (filter (\<lambda>r. Some (display_key r) = sel) ?f)"
    by simp
  then show ?thesis
    by simp
qed

lemma relationship_graph_Inr_iff:
  "(\<exists>g. relationship_graph row cdf = Inr g) \<longleftrightarrow>
     list_all is_str (from_table row # to_table row
       # map to_table (downstream_connections cdf (to_table row)))"
  by (simp add: relationship_graph_def Let_def)

section \<open>The claims\<close>

text \<open>
  Claim C1. The claim promises, for an identifier column held by \<open>n \<ge> 2\<close> tables, exactly
  \<open>n * (n - 1)\<close> connections, one for every ordered pair of distinct tables. On the file
  with the lines \<open>NA,K,\<dots>\<close>, \<open>B,K,\<dots>\<close> and \<open>C,K,\<dots>\<close> the script lists three tables for
  \<open>K\<close>, the missing one among them, and infers seven connections: the test
  \<open>Table != row['Table']\<close> of line 25 holds of the first row against itself. (Without
  a missing table cell the claim holds: \<open>complete_pairs_without_missing_table\<close>.)
\<close>

theorem missing_table_pairs:
  "tables_with_column (df_uniqueidentifier missing_table_df) (Some (Str ''K''))
     = [NaN, Str ''B'', Str ''C''] \<and>
   filter (\<lambda>r. from_column r = Str ''K'' \<or> to_column r = Str ''K'')
       (connections_df missing_table_df)
     = [conn NaN (Str ''K'') NaN (Str ''K''), conn NaN (Str ''K'') (Str ''B'') (Str ''K''),
        conn NaN (Str ''K'') (Str ''C'') (Str ''K''),
        conn (Str ''B'') (Str ''K'') NaN (Str ''K''), sconn ''B'' ''K'' ''C'' ''K'',
        conn (Str ''C'') (Str ''K'') NaN (Str ''K''), sconn ''C'' ''K'' ''B'' ''K''] \<and>
   length (connections_df missing_table_df) = 7"
proof (intro conjI)
  show "tables_with_column (df_uniqueidentifier missing_table_df) (Some (Str ''K''))
     = [NaN, Str ''B'', Str ''C'']"
    by (simp add: tables_with_column_def df_uniqueidentifier_def missing_table_df_def unique_def
        srow_def eq_cell_def)
qed (simp_all add: connections_df_missing_table sconn_def)

text \<open>
  Claim C2. The claim says that the tables offered as second choice for the anchor \<open>t\<close>
  are among the \<open>to_table\<close> values of the rows with \<open>from_table = t\<close>. Line 84 takes the
  \<open>to_table\<close> values of the rows that have \<open>t\<close> on either side (line 50), so the anchor
  itself is offered: with the example table, \<open>Orders\<close> is offered for \<open>Orders\<close>.
\<close>

theorem joinable_tables_not_directional_counterexample:
  "\<not> set (joinable_tables (by_table (Some (Str ''Orders'')) (connections_df example_df)))
       \<subseteq> set (map to_table (downstream_connections (connections_df example_df) (Str ''Orders'')))"
  by (simp add: connections_df_example joinable_tables_def unique_def by_table_def
      downstream_connections_def sconn_def eq_cell_def)

text \<open>
  Claim C2, as the script has it: the tables offered for the anchor \<open>t\<close> are exactly
  the \<open>to_table\<close> values of the rows with \<open>from_table = t\<close>, together with \<open>t\<close> itself
  whenever \<open>t\<close> is the \<open>to_table\<close> of some row (and is not a missing cell, which is
  equal to nothing).
\<close>

theorem joinable_tables_exact:
  "set (joinable_tables (by_table (Some t) cdf)) =
     set (map to_table (downstream_connections cdf t)) \<union>
     (if t \<noteq> NaN \<and> t \<in> set (map to_table cdf) then {t} else {})"
  by (auto simp: set_joinable_tables by_table_def downstream_connections_def eq_cell_def)

theorem joinable_tables_exact_witness:
  "joinable_tables (by_table (Some (Str ''Orders'')) (connections_df example_df))
     = [Str ''Customers'', Str ''Orders''] \<and>
   map to_table (downstream_connections (connections_df example_df) (Str ''Orders''))
     = [Str ''Customers''] \<and>
   Str ''Orders'' \<in> set (map to_table (connections_df example_df)) \<and>
   set [Str ''Customers'', Str ''Orders''] = set [Str ''Customers''] \<union> {Str ''Orders''}"
  using joinable_tables_exact [of "Str ''Orders''" "connections_df example_df"]
  by (simp add: connections_df_example joinable_tables_def unique_def by_table_def
      downstream_connections_def sconn_def eq_cell_def)

text \<open>
  Claim C3. The claim says that in the \<open>Column Name\<close> branch no connection on another
  column is a candidate. Lines 65--78 filter by the two chosen tables only and never by
  \<open>selected_column\<close>: with the column \<open>CustomerID\<close>, first table \<open>Customers\<close> and second
  table \<open>Regions\<close> (both offered by the select boxes), the candidates are the two
  connections on \<open>RegionID\<close>, and one of them is resolved.
\<close>

theorem by_column_keeps_other_columns:
  "Str ''Customers''
     \<in> set (tables_with_column (df_uniqueidentifier example_df) (Some (Str ''CustomerID''))) \<and>
   Str ''Regions''
     \<in> set (joinable_tables (by_table (Some (Str ''Customers'')) (connections_df example_df))) \<and>
   filtered_connections (connections_df example_df)
       (Column_Name (Some (Str ''CustomerID'')) (Some (Str ''Customers'')) (Some (Str ''Regions'')))
     = Inr [sconn ''Customers'' ''RegionID'' ''Regions'' ''RegionID'',
            sconn ''Regions'' ''RegionID'' ''Customers'' ''RegionID''] \<and>
   resolve example_df
       (Column_Name (Some (Str ''CustomerID'')) (Some (Str ''Customers'')) (Some (Str ''Regions'')))
       (Some ''Customers (RegionID) -> Regions (RegionID)'')
     = Inr (sconn ''Customers'' ''RegionID'' ''Regions'' ''RegionID'')"
proof (intro conjI)
  show "Str ''Customers''
     \<in> set (tables_with_column (df_uniqueidentifier example_df) (Some (Str ''CustomerID'')))"
    by (simp add: tables_with_column_def df_uniqueidentifier_def example_df_def unique_def
        srow_def eq_cell_def)
qed (simp_all add: connections_df_example joinable_tables_def unique_def by_table_def
      resolve_def selected_row_def display_key_def sconn_def eq_cell_def)

text \<open>
  Claim C4. The claim says that a downstream edge carries the downstream row's own
  column pair. Line 157 builds the label from the selected row's \<open>to_column\<close> instead:
  for the selected row \<open>Orders (CustomerID) -> Customers (CustomerID)\<close> the edge from
  \<open>Customers\<close> to \<open>Regions\<close> is labelled with \<open>CustomerID\<close> and \<open>RegionID\<close>.
\<close>

theorem downstream_edge_label:
  "relationship_graph (sconn ''Orders'' ''CustomerID'' ''Customers'' ''CustomerID'')
       (connections_df example_df)
     = Inr \<lparr>nodes = [''Orders'', ''Customers'', ''Orders'', ''Regions''],
            edges =
              [\<lparr>tail = ''Orders'', head = ''Customers'',
                 label = arrow_label (Str ''CustomerID'') (Str ''CustomerID'')\<rparr>,
               \<lparr>tail = ''Customers'', head = ''Orders'',
                 label = arrow_label (Str ''CustomerID'') (Str ''CustomerID'')\<rparr>,
               \<lparr>tail = ''Customers'', head = ''Regions'',
                 label = arrow_label (Str ''CustomerID'') (Str ''RegionID'')\<rparr>]\<rparr> \<and>
   arrow_label (Str ''CustomerID'') (Str ''RegionID'')
     \<noteq> arrow_label (Str ''RegionID'') (Str ''RegionID'')"
  by (simp add: connections_df_example relationship_graph_def downstream_connections_def
      arrow_label_def sconn_def eq_cell_def)

text \<open>
  Claim C5. The claim says that an empty list of joinable tables ends in the error
  \<open>NoJoinableTable\<close>. The script has no such error: the second select box has no option
  and returns \<open>None\<close>, the narrowed frame is empty, and the row lookup of lines 101--106
  fails. The table \<open>Notes\<close>, whose identifier column \<open>NoteID\<close> no other table has, shows it.
\<close>

theorem no_joinable_table_counterexample:
  "connections_df notes_df \<noteq> [] \<and>
   joinable_tables (by_table (Some (Str ''Notes'')) (connections_df notes_df)) = [] \<and>
   resolve notes_df (Table_Name (Some (Str ''Notes'')) None) None \<noteq> Inl NoJoinableTable \<and>
   resolve notes_df (Column_Name (Some (Str ''NoteID'')) (Some (Str ''Notes'')) None) None
     \<noteq> Inl NoJoinableTable"
  by (simp add: connections_df_notes connections_df_example joinable_tables_def unique_def
      by_table_def resolve_def selected_row_def sconn_def eq_cell_def)

text \<open>
  Claim C5, as the script has it: when some connection was inferred and the chosen table
  has no joinable table, the narrowed frame is empty in both branches, whatever the second
  choice, and no row is resolved: the lookup of lines 101--106 fails.
\<close>

theorem empty_joinable_tables:
  assumes "connections_df df \<noteq> []"
    and "joinable_tables (by_table selected_table (connections_df df)) = []"
  shows "filtered_connections (connections_df df) (Table_Name selected_table selected_to_table) = Inr [] \<and>
         filtered_connections (connections_df df)
           (Column_Name selected_column selected_table selected_to_table) = Inr [] \<and>
         resolve df (Table_Name selected_table selected_to_table) selected_relationship
           = Inl IndexError \<and>
         resolve df (Column_Name selected_column selected_table selected_to_table)
           selected_relationship = Inl IndexError"
proof -
  from assms(2) have "by_table selected_table (connections_df df) = []"
    by (simp only: joinable_tables_Nil_iff)
  with assms(1) show ?thesis
    by (simp add: resolve_def selected_row_def)
qed

theorem empty_joinable_tables_witness:
  "connections_df notes_df \<noteq> [] \<and>
   joinable_tables (by_table (Some (Str ''Notes'')) (connections_df notes_df)) = [] \<and>
   resolve notes_df (Table_Name (Some (Str ''Notes'')) None) None = Inl IndexError \<and>
   resolve notes_df (Column_Name (Some (Str ''NoteID'')) (Some (Str ''Notes'')) None) None
     = Inl IndexError"
proof -
  have a: "connections_df notes_df \<noteq> []"
    by (simp add: connections_df_notes connections_df_example)
  have b: "joinable_tables (by_table (Some (Str ''Notes'')) (connections_df notes_df)) = []"
    by (simp add: connections_df_notes connections_df_example joinable_tables_def unique_def
        by_table_def sconn_def eq_cell_def)
  from empty_joinable_tables [OF a b] a b show ?thesis
    by blast
qed

text \<open>
  Claim C6. The claim says that no inferred connection joins a table with itself. The
  script excludes the row's own table by \<open>Table != row['Table']\<close> (line 25, \<open>in other
  tables\<close> in the comment of line 24), and this test holds of a missing table cell against
  itself: on the file with the line \<open>NA,K,\<dots>\<close> the first row is connected with itself.
  (A connection with the same table on both sides arises in this way only:
  \<open>self_connection_missing\<close>.)
\<close>

theorem missing_table_self_connection:
  "conn NaN (Str ''K'') NaN (Str ''K'') \<in> set (connections_df missing_table_df) \<and>
   from_table (conn NaN (Str ''K'') NaN (Str ''K''))
     = to_table (conn NaN (Str ''K'') NaN (Str ''K'')) \<and>
   display_key (conn NaN (Str ''K'') NaN (Str ''K'')) = ''nan (K) -> nan (K)''"
  by (simp add: connections_df_missing_table display_key_def)

text \<open>
  Claim C7. The claim says that no edge of the relationship graph starts at a node other
  than the selected row's \<open>to_table\<close>, nor at the \<open>to_table\<close> of a downstream row. The
  first edge (line 147) starts at the selected row's \<open>from_table\<close>, which in the example is
  also the \<open>to_table\<close> of a downstream row.
\<close>

theorem seed_edge_counterexample:
  "relationship_graph (sconn ''Orders'' ''CustomerID'' ''Customers'' ''CustomerID'')
       (connections_df example_df)
     = Inr \<lparr>nodes = [''Orders'', ''Customers'', ''Orders'', ''Regions''],
            edges =
              [\<lparr>tail = ''Orders'', head = ''Customers'',
                 label = arrow_label (Str ''CustomerID'') (Str ''CustomerID'')\<rparr>,
               \<lparr>tail = ''Customers'', head = ''Orders'',
                 label = arrow_label (Str ''CustomerID'') (Str ''CustomerID'')\<rparr>,
               \<lparr>tail = ''Customers'', head = ''Regions'',
                 label = arrow_label (Str ''CustomerID'') (Str ''RegionID'')\<rparr>]\<rparr> \<and>
   ''Orders'' \<noteq> str_of (to_table (sconn ''Orders'' ''CustomerID'' ''Customers'' ''CustomerID'')) \<and>
   Str ''Orders'' \<in> set (map to_table (downstream_connections (connections_df example_df)
       (to_table (sconn ''Orders'' ''CustomerID'' ''Customers'' ''CustomerID''))))"
  by (simp add: relationship_graph_example)
    (simp add: sconn_def downstream_connections_example [unfolded sconn_def])

text \<open>
  Claim C7, as the script has it: an edge of the relationship graph is the edge of the
  selected row, or it starts at the selected row's \<open>to_table\<close>, and then at the \<open>to_table\<close>
  of no downstream row. The graph exists when the names it is given are texts
  (\<open>relationship_graph_Inr_iff\<close>).
\<close>

theorem one_hop_downstream:
  assumes "relationship_graph row (connections_df df) = Inr g" and "e \<in> set (edges g)"
  shows "e = \<lparr>tail = str_of (from_table row), head = str_of (to_table row),
               label = arrow_label (from_column row) (to_column row)\<rparr> \<or>
         (tail e = str_of (to_table row) \<and>
          tail e \<notin> set (map (\<lambda>d. str_of (to_table d))
                          (downstream_connections (connections_df df) (to_table row))))"
proof -
  let ?down = "downstream_connections (connections_df df) (to_table row)"
  from assms(1) have strs: "is_str (to_table row)" "\<forall>d\<in>set ?down. is_str (to_table d)"
    and g: "edges g =
      \<lparr>tail = str_of (from_table row), head = str_of (to_table row),
        label = arrow_label (from_column row) (to_column row)\<rparr>
      # map (\<lambda>d. \<lparr>tail = str_of (to_table row), head = str_of (to_table d),
                     label = arrow_label (to_column row) (to_column d)\<rparr>) ?down"
    by (auto simp: relationship_graph_def Let_def list_all_iff split: if_splits)
  have other: "str_of (to_table d) \<noteq> str_of (to_table row)" if d: "d \<in> set ?down" for d
  proof -
    from d have mem: "d \<in> set (connections_df df)" and "eq_cell (from_table d) (to_table row)"
      by (simp_all add: downstream_connections_def)
    then have "from_table d = to_table row"
      by (simp add: eq_cell_def)
    with strs(1) have "from_table d \<noteq> NaN"
      by auto
    with mem have "from_table d \<noteq> to_table d"
      using self_connection_missing by blast
    with \<open>from_table d = to_table row\<close> have "to_table d \<noteq> to_table row"
      by simp
    with strs d show ?thesis
      by (simp add: is_str_str_of_inject)
  qed
  have "str_of (to_table row) \<notin> set (map (\<lambda>d. str_of (to_table d)) ?down)"
  proof
    assume "str_of (to_table row) \<in> set (map (\<lambda>d. str_of (to_table d)) ?down)"
    then obtain d where "d \<in> set ?down" and "str_of (to_table d) = str_of (to_table row)"
      by auto
    with other show False by blast
  qed
  with assms(2) g show ?thesis
    by auto
qed

theorem one_hop_downstream_witness:
  "relationship_graph (sconn ''Orders'' ''CustomerID'' ''Customers'' ''CustomerID'')
       (connections_df example_df)
     = Inr \<lparr>nodes = [''Orders'', ''Customers'', ''Orders'', ''Regions''],
            edges =
              [\<lparr>tail = ''Orders'', head = ''Customers'',
                 label = arrow_label (Str ''CustomerID'') (Str ''CustomerID'')\<rparr>,
               \<lparr>tail = ''Customers'', head = ''Orders'',
                 label = arrow_label (Str ''CustomerID'') (Str ''CustomerID'')\<rparr>,
               \<lparr>tail = ''Customers'', head = ''Regions'',
                 label = arrow_label (Str ''CustomerID'') (Str ''RegionID'')\<rparr>]\<rparr> \<and>
   ''Customers'' \<notin> set (map (\<lambda>d. str_of (to_table d))
       (downstream_connections (connections_df example_df) (Str ''Customers'')))"
proof -
  let ?e = "\<lparr>tail = ''Customers'', head = ''Regions'',
              label = arrow_label (Str ''CustomerID'') (Str ''RegionID'')\<rparr>"
  let ?row = "sconn ''Orders'' ''CustomerID'' ''Customers'' ''CustomerID''"
  note g = relationship_graph_example
  have e: "?e \<in> set (edges \<lparr>nodes = [''Orders'', ''Customers'', ''Orders'', ''Regions''],
            edges =
              [\<lparr>tail = ''Orders'', head = ''Customers'',
                 label = arrow_label (Str ''CustomerID'') (Str ''CustomerID'')\<rparr>,
               \<lparr>tail = ''Customers'', head = ''Orders'',
                 label = arrow_label (Str ''CustomerID'') (Str ''CustomerID'')\<rparr>,
               ?e]\<rparr>)"
    by simp
  from one_hop_downstream [OF g e] g show ?thesis
    by (simp add: sconn_def)
qed

text \<open>
  Claim C8. The claim says that the lookup fails with \<open>NoMatchingRelationship\<close> when no
  candidate has the chosen text. The script has no such error. On a file from which no
  connection is inferred, with the filter \<open>None\<close>, the select box of line 94 has no
  option and the lookup raises within \<open>.loc\<close>, on a frame without columns.
\<close>

theorem no_matching_relationship_counterexample:
  "connections_df lonely_df = [] \<and>
   resolve lonely_df Filter_None None = Inl ValueError \<and>
   Inl ValueError \<noteq> (Inl NoMatchingRelationship :: error + connection)"
  by (simp add: connections_df_lonely resolve_def selected_row_def)

text \<open>
  Claim C8, as the script has it: on a frame with columns the resolved row is the first
  candidate whose text is the chosen text, compared as texts (so with regard to case);
  when no candidate has that text the lookup fails in \<open>.iloc[0]\<close>; on the frame without
  columns it fails within \<open>.loc\<close>. In every branch the failure is never
  \<open>NoMatchingRelationship\<close>, and a resolved row is an inferred connection with the chosen
  text.
\<close>

theorem selected_row_first_match:
  "(selected_row True filtered selected_relationship = Inr r \<longleftrightarrow>
      (\<exists>before after. filtered = before @ r # after \<and>
         Some (display_key r) = selected_relationship \<and>
         (\<forall>q\<in>set before. Some (display_key q) \<noteq> selected_relationship))) \<and>
   ((\<forall>q\<in>set filtered. Some (display_key q) \<noteq> selected_relationship) \<longrightarrow>
      selected_row True filtered selected_relationship = Inl IndexError) \<and>
   selected_row False filtered selected_relationship = Inl ValueError \<and>
   resolve df ft selected_relationship \<noteq> Inl NoMatchingRelationship \<and>
   (resolve df ft selected_relationship = Inr r \<longrightarrow>
      r \<in> set (connections_df df) \<and> Some (display_key r) = selected_relationship)"
proof (intro conjI)
  let ?P = "\<lambda>r. Some (display_key r) = selected_relationship"
  have "selected_row True filtered selected_relationship = Inr r \<longleftrightarrow>
        (\<exists>rs. filter ?P filtered = r # rs)"
    by (cases "filter ?P filtered") (simp_all add: selected_row_def)
  also have "\<dots> \<longleftrightarrow> (\<exists>before after. filtered = before @ r # after \<and> ?P r \<and>
         (\<forall>q\<in>set before. \<not> ?P q))"
    unfolding filter_eq_Cons_iff by blast
  finally show "selected_row True filtered selected_relationship = Inr r \<longleftrightarrow>
      (\<exists>before after. filtered = before @ r # after \<and>
         Some (display_key r) = selected_relationship \<and>
         (\<forall>q\<in>set before. Some (display_key q) \<noteq> selected_relationship))" .
  show "(\<forall>q\<in>set filtered. Some (display_key q) \<noteq> selected_relationship) \<longrightarrow>
      selected_row True filtered selected_relationship = Inl IndexError"
  proof
    assume "\<forall>q\<in>set filtered. Some (display_key q) \<noteq> selected_relationship"
    then have "filter ?P filtered = []"
      by (simp add: filter_empty_conv)
    then show "selected_row True filtered selected_relationship = Inl IndexError"
      by (simp add: selected_row_def)
  qed
  show "selected_row False filtered selected_relationship = Inl ValueError"
    by (simp add: selected_row_def)
  show "resolve df ft selected_relationship \<noteq> Inl NoMatchingRelationship"
    using resolve_cases [of df ft selected_relationship] by auto
  show "resolve df ft selected_relationship = Inr r \<longrightarrow>
      r \<in> set (connections_df df) \<and> Some (display_key r) = selected_relationship"
    using resolve_cases [of df ft selected_relationship] by auto
qed

theorem selected_row_first_match_witness:
  "display_key (sconn ''A'' ''K'' ''B (K) -> C'' ''K'')
     = display_key (sconn ''A (K) -> B'' ''K'' ''C'' ''K'') \<and>
   selected_row True
       [sconn ''A'' ''K'' ''B (K) -> C'' ''K'', sconn ''A (K) -> B'' ''K'' ''C'' ''K'']
       (Some ''A (K) -> B (K) -> C (K)'')
     = Inr (sconn ''A'' ''K'' ''B (K) -> C'' ''K'') \<and>
   selected_row True
       [sconn ''A'' ''K'' ''B (K) -> C'' ''K'', sconn ''A (K) -> B'' ''K'' ''C'' ''K'']
       (Some ''a (k) -> b (k) -> c (k)'')
     = Inl IndexError"
proof -
  let ?r1 = "sconn ''A'' ''K'' ''B (K) -> C'' ''K''"
  let ?r2 = "sconn ''A (K) -> B'' ''K'' ''C'' ''K''"
  have k: "display_key ?r1 = ''A (K) -> B (K) -> C (K)''"
    "display_key ?r2 = ''A (K) -> B (K) -> C (K)''"
    by (simp_all add: display_key_def sconn_def)
  have first: "\<exists>before after. [?r1, ?r2] = before @ ?r1 # after \<and>
         Some (display_key ?r1) = Some ''A (K) -> B (K) -> C (K)'' \<and>
         (\<forall>q\<in>set before. Some (display_key q) \<noteq> Some ''A (K) -> B (K) -> C (K)'')"
    by (rule exI [of _ "[]"], rule exI [of _ "[?r2]"]) (simp add: k)
  have none: "\<forall>q\<in>set [?r1, ?r2]. Some (display_key q) \<noteq> Some ''a (k) -> b (k) -> c (k)''"
    by (simp add: k)
  from selected_row_first_match [of "[?r1, ?r2]" "Some ''A (K) -> B (K) -> C (K)''" ?r1] first
  have "selected_row True [?r1, ?r2] (Some ''A (K) -> B (K) -> C (K)'') = Inr ?r1"
    by blast
  moreover from selected_row_first_match [of "[?r1, ?r2]" "Some ''a (k) -> b (k) -> c (k)''"] none
  have "selected_row True [?r1, ?r2] (Some ''a (k) -> b (k) -> c (k)'') = Inl IndexError"
    by blast
  ultimately show ?thesis
    using k by simp
qed

text \<open>
  Claim C9. The claim says that with no joinable table the graph of joinable tables is
  empty and nothing is raised. In the script the graph is built after the row lookup
  (lines 101--106), which has failed by then: for the table \<open>Notes\<close> of the example with
  notes no graph is produced, and the run ends in the exception of the lookup.
\<close>

theorem empty_joinable_graph_counterexample:
  "joinable_tables (by_table (Some (Str ''Notes'')) (connections_df notes_df)) = [] \<and>
   joinable_chart notes_df (Table_Name (Some (Str ''Notes'')) None) None = Inl IndexError"
  by (simp add: connections_df_notes connections_df_example joinable_tables_def unique_def
      by_table_def joinable_chart_def resolve_def selected_row_def sconn_def eq_cell_def)

text \<open>
  Claim C9, as the script has it: with no joinable table the run fails before line 116
  (at line 50 when no connection was inferred, in the row lookup otherwise), and no graph
  is produced. A graph of joinable tables that is produced belongs to the \<open>Table Name\<close>
  branch and has the node of the selected table, and for at least one joinable table a
  node and an edge labelled \<open>joins\<close>: it is never empty and never the anchor alone.
\<close>

theorem joinable_chart_never_empty:
  "(joinable_tables (by_table selected_table (connections_df df)) = [] \<longrightarrow>
      joinable_chart df (Table_Name selected_table selected_to_table) selected_relationship
        = (if connections_df df = [] then Inl KeyError else Inl IndexError)) \<and>
   (joinable_chart df ft selected_relationship = Inr (Some g) \<longrightarrow>
      (\<exists>t to_choice joinable.
          ft = Table_Name (Some t) to_choice \<and>
          joinable = joinable_tables (by_table (Some t) (connections_df df)) \<and>
          joinable \<noteq> [] \<and>
          nodes g = str_of t # map str_of joinable \<and>
          edges g = map (\<lambda>j. \<lparr>tail = str_of t, head = str_of j, label = ''joins''\<rparr>) joinable))"
proof (intro conjI impI)
  assume "joinable_tables (by_table selected_table (connections_df df)) = []"
  then have "by_table selected_table (connections_df df) = []"
    by (simp only: joinable_tables_Nil_iff)
  then show "joinable_chart df (Table_Name selected_table selected_to_table) selected_relationship
        = (if connections_df df = [] then Inl KeyError else Inl IndexError)"
    by (simp add: joinable_chart_def resolve_def selected_row_def)
next
  assume chart: "joinable_chart df ft selected_relationship = Inr (Some g)"
  then obtain row where row: "resolve df ft selected_relationship = Inr row"
    by (auto simp: joinable_chart_def split: sum.splits)
  with chart obtain t to_choice where ft: "ft = Table_Name (Some t) to_choice"
    and g: "joinable_tables_graph t (joinable_tables (by_table (Some t) (connections_df df))) = Inr g"
    by (auto simp: joinable_chart_def split: sum.splits filter_type.splits option.splits)
  let ?joinable = "joinable_tables (by_table (Some t) (connections_df df))"
  from row ft have "row \<in> set (by_table (Some t) (connections_df df))"
    using resolve_Table_Name_by_table by blast
  then have "by_table (Some t) (connections_df df) \<noteq> []"
    by auto
  then have "?joinable \<noteq> []"
    by (simp only: joinable_tables_Nil_iff not_False_eq_True)
  moreover from g have "nodes g = str_of t # map str_of ?joinable"
    "edges g = map (\<lambda>j. \<lparr>tail = str_of t, head = str_of j, label = ''joins''\<rparr>) ?joinable"
    by (auto simp: joinable_tables_graph_def split: if_splits)
  ultimately show "\<exists>t to_choice joinable.
          ft = Table_Name (Some t) to_choice \<and>
          joinable = joinable_tables (by_table (Some t) (connections_df df)) \<and>
          joinable \<noteq> [] \<and>
          nodes g = str_of t # map str_of joinable \<and>
          edges g = map (\<lambda>j. \<lparr>tail = str_of t, head = str_of j, label = ''joins''\<rparr>) joinable"
    using ft by blast
qed

theorem joinable_chart_never_empty_witness:
  "joinable_tables (by_table (Some (Str ''Notes'')) (connections_df notes_df)) = [] \<and>
   joinable_chart notes_df (Table_Name (Some (Str ''Notes'')) None) None = Inl IndexError \<and>
   joinable_chart example_df (Table_Name (Some (Str ''Orders'')) (Some (Str ''Customers'')))
       (Some ''Orders (CustomerID) -> Customers (CustomerID)'')
     = Inr (Some \<lparr>nodes = [''Orders'', ''Customers'', ''Orders''],
                  edges = [\<lparr>tail = ''Orders'', head = ''Customers'', label = ''joins''\<rparr>,
                           \<lparr>tail = ''Orders'', head = ''Orders'', label = ''joins''\<rparr>]\<rparr>) \<and>
   joinable_tables (by_table (Some (Str ''Orders'')) (connections_df example_df)) \<noteq> []"
proof -
  let ?g = "\<lparr>nodes = [''Orders'', ''Customers'', ''Orders''],
             edges = [\<lparr>tail = ''Orders'', head = ''Customers'', label = ''joins''\<rparr>,
                      \<lparr>tail = ''Orders'', head = ''Orders'', label = ''joins''\<rparr>]\<rparr>"
  have a: "joinable_tables (by_table (Some (Str ''Notes'')) (connections_df notes_df)) = []"
    by (simp add: connections_df_notes connections_df_example joinable_tables_def unique_def
        by_table_def sconn_def eq_cell_def)
  have b: "connections_df notes_df \<noteq> []"
    by (simp add: connections_df_notes connections_df_example)
  have c: "joinable_chart example_df (Table_Name (Some (Str ''Orders'')) (Some (Str ''Customers'')))
       (Some ''Orders (CustomerID) -> Customers (CustomerID)'') = Inr (Some ?g)"
    by (simp add: connections_df_example joinable_tables_def unique_def by_table_def
        joinable_chart_def resolve_def selected_row_def display_key_def joinable_tables_graph_def
        sconn_def eq_cell_def)
  from joinable_chart_never_empty [where selected_table = "Some (Str ''Notes'')"
      and df = notes_df and selected_to_table = None and selected_relationship = None] a b
  have "joinable_chart notes_df (Table_Name (Some (Str ''Notes'')) None) None = Inl IndexError"
    by simp
  moreover from joinable_chart_never_empty [where df = example_df
      and ft = "Table_Name (Some (Str ''Orders'')) (Some (Str ''Customers''))"
      and selected_relationship = "Some ''Orders (CustomerID) -> Customers (CustomerID)''"
      and g = ?g] c
  have "joinable_tables (by_table (Some (Str ''Orders'')) (connections_df example_df)) \<noteq> []"
    by auto
  ultimately show ?thesis
    using a c by blast
qed

text \<open>
  Claim C10. The claim says that every table that takes part in an inferred connection
  is among its own joinable tables and gets an edge to itself in the graph of joinable
  tables. A missing table cell takes part in connections, and the comparison of line 50
  is false on every row for it: its list of joinable tables is empty. A table named by
  a number is among its joinable tables, and \<open>graph.node\<close> raises on its name
  (line 120).
\<close>

theorem anchor_joins_itself_counterexample:
  "conn NaN (Str ''K'') (Str ''B'') (Str ''K'') \<in> set (connections_df missing_table_df) \<and>
   joinable_tables (by_table (Some NaN) (connections_df missing_table_df)) = [] \<and>
   conn (Num ''1'') (Str ''K'') (Num ''2'') (Str ''K'') \<in> set (connections_df numeric_table_df) \<and>
   joinable_tables_graph (Num ''1'')
       (joinable_tables (by_table (Some (Num ''1'')) (connections_df numeric_table_df)))
     = Inl TypeError"
  by (simp add: connections_df_missing_table connections_df_numeric_table joinable_tables_def
      unique_def by_table_def joinable_tables_graph_def sconn_def eq_cell_def)

text \<open>
  Claim C10, as the script has it: a table that is not a missing cell and takes part in
  an inferred connection is among its own joinable tables in the \<open>Table Name\<close> branch; the
  graph of joinable tables, which is built when all its names are texts, then has an
  edge from the table to itself labelled \<open>joins\<close>.
\<close>

theorem anchor_joins_itself:
  assumes "r \<in> set (connections_df df)" and "from_table r = t \<or> to_table r = t"
    and "t \<noteq> NaN"
  shows "t \<in> set (joinable_tables (by_table (Some t) (connections_df df))) \<and>
         (joinable_tables_graph t (joinable_tables (by_table (Some t) (connections_df df))) = Inr g
            \<longrightarrow> \<lparr>tail = str_of t, head = str_of t, label = ''joins''\<rparr> \<in> set (edges g)) \<and>
         (list_all is_str (t # joinable_tables (by_table (Some t) (connections_df df)))
            \<longrightarrow> (\<exists>g. joinable_tables_graph t
                        (joinable_tables (by_table (Some t) (connections_df df))) = Inr g))"
proof -
  from assms(1) obtain a b c where r: "r = conn a c b c"
    and rv: "conn b c a c \<in> set (connections_df df)"
    by (rule in_connections_dfE)
  from assms(1,2) r rv obtain q where "q \<in> set (connections_df df)" and "to_table q = t"
    by auto
  with assms(3) have "q \<in> set (by_table (Some t) (connections_df df))"
    by (simp add: by_table_def eq_cell_def)
  with \<open>to_table q = t\<close> have "t \<in> set (joinable_tables (by_table (Some t) (connections_df df)))"
    unfolding set_joinable_tables by blast
  then show ?thesis
    by (auto simp: joinable_tables_graph_def split: if_splits)
qed

theorem anchor_joins_itself_witness:
  "sconn ''Orders'' ''CustomerID'' ''Customers'' ''CustomerID'' \<in> set (connections_df example_df) \<and>
   Str ''Orders'' \<in> set (joinable_tables (by_table (Some (Str ''Orders'')) (connections_df example_df))) \<and>
   joinable_tables_graph (Str ''Orders'')
       (joinable_tables (by_table (Some (Str ''Orders'')) (connections_df example_df)))
     = Inr \<lparr>nodes = [''Orders'', ''Customers'', ''Orders''],
            edges = [\<lparr>tail = ''Orders'', head = ''Customers'', label = ''joins''\<rparr>,
                     \<lparr>tail = ''Orders'', head = ''Orders'', label = ''joins''\<rparr>]\<rparr>"
proof -
  let ?r = "sconn ''Orders'' ''CustomerID'' ''Customers'' ''CustomerID''"
  have a: "?r \<in> set (connections_df example_df)"
    by (simp add: connections_df_example)
  have b: "from_table ?r = Str ''Orders'' \<or> to_table ?r = Str ''Orders''"
    by (simp add: sconn_def)
  have c: "Str ''Orders'' \<noteq> NaN"
    by simp
  have g: "joinable_tables_graph (Str ''Orders'')
       (joinable_tables (by_table (Some (Str ''Orders'')) (connections_df example_df)))
     = Inr \<lparr>nodes = [''Orders'', ''Customers'', ''Orders''],
            edges = [\<lparr>tail = ''Orders'', head = ''Customers'', label = ''joins''\<rparr>,
                     \<lparr>tail = ''Orders'', head = ''Orders'', label = ''joins''\<rparr>]\<rparr>"
    by (simp add: connections_df_example joinable_tables_def unique_def by_table_def
        joinable_tables_graph_def sconn_def eq_cell_def)
  from anchor_joins_itself [OF a b c] a g show ?thesis
    by blast
qed

end
